theory Spec2Isabelle
  imports Complex_Main
begin

section \<open>Values of the JavaScript program\<close>

text \<open>
  The keypad server is a Node.js program. Request bodies, MQTT event payloads, Socket.IO
  payloads and HTTP response bodies are JSON values; a missing object key reads as
  \<open>undefined\<close>. An object is the list of its own properties, each key once, in
  insertion order. Finite JSON numbers are rationals.
\<close>

datatype jsval =
    JUndefined
  | JNull
  | JBool bool
  | JNum rat
  | JStr string
  | JArr "jsval list"
  | JObj "(string \<times> jsval) list"

text \<open>
  JavaScript truthiness, as used by \<^verbatim>\<open>if (!code)\<close> and
  \<^verbatim>\<open>if (app.locals.alarmState)\<close>: \<open>undefined\<close>, \<open>null\<close>,
  \<open>false\<close>, \<open>0\<close> and the empty string are falsy, every array and object is truthy.
\<close>

fun truthy :: "jsval \<Rightarrow> bool" where
  "truthy JUndefined = False"
| "truthy JNull = False"
| "truthy (JBool b) = b"
| "truthy (JNum n) = (n \<noteq> 0)"
| "truthy (JStr s) = (s \<noteq> [])"
| "truthy (JArr xs) = True"
| "truthy (JObj kvs) = True"

text \<open>
  Exceptions are values. \<^verbatim>\<open>JSON.parse\<close> throws a SyntaxError on text that is not
  JSON; reading a property of \<open>null\<close> or \<open>undefined\<close> throws a TypeError.
  \<^verbatim>\<open>JSON.parse\<close> is a built-in of the runtime, not code of this repository: the
  handler below takes it as the parameter \<open>parse\<close>.
\<close>

datatype js_error = SyntaxError | TypeError

type_synonym json_parse = "string \<Rightarrow> js_error + jsval"

text \<open>
  \<^verbatim>\<open>response.event\<close>: the own property \<open>event\<close> of an object, \<open>undefined\<close>
  when the object has none or when the value is a boolean, number, string or array
  (their prototypes have no such property), a TypeError on \<open>null\<close>.
\<close>

fun event_of :: "jsval \<Rightarrow> js_error + jsval" where
  "event_of JUndefined = Inl TypeError"
| "event_of JNull = Inl TypeError"
| "event_of (JObj kvs) =
     (case map_of kvs ''event'' of Some v \<Rightarrow> Inr v | None \<Rightarrow> Inr JUndefined)"
| "event_of v = Inr JUndefined"

text \<open>
  A template literal \<^verbatim>\<open>`${v}`\<close> converts \<open>v\<close> to a string. The conversion of
  \<open>undefined\<close>, \<open>null\<close>, a boolean, a number or a string always succeeds. An
  object is converted by calling its \<open>toString\<close>: an object of a JSON body inherits
  a callable one unless it has an own property \<open>toString\<close>, which is never callable,
  and then the conversion throws a TypeError (the inherited \<open>valueOf\<close> returns the
  object itself, an own \<open>valueOf\<close> is not callable either). An array is converted
  by joining the conversions of its elements, so it throws when one of them does.
  \<open>to_string_throws v\<close> says that the conversion of \<open>v\<close> throws.
\<close>

fun to_string_throws :: "jsval \<Rightarrow> bool" where
  "to_string_throws (JObj kvs) = (map_of kvs ''toString'' \<noteq> None)"
| "to_string_throws (JArr xs) = list_ex to_string_throws xs"
| "to_string_throws v = False"

section \<open>api/alarm.js: helper functions\<close>

text \<open>
  \<^verbatim>\<open>
  function mapEventToState(event) {
      switch(event) {
          case 'ARM_AWAY': return 'armed_away';
          case 'ARM_HOME': return 'armed_home';
          case 'ARM_NIGHT': return 'armed_night';
          case 'ARM_VACATION': return 'armed_vacation';
          case 'ARM_CUSTOM_BYPASS': return 'armed_custom_bypass';
          case 'TRIGGER': return 'triggered';
          default: return 'unknown';
      }
  }
  \<close>
  A \<^verbatim>\<open>switch\<close> compares with \<^verbatim>\<open>===\<close>: only a string equal to the
  label matches.
\<close>

definition mapEventToState :: "jsval \<Rightarrow> string" where
  "mapEventToState event =
     (if event = JStr ''ARM_AWAY'' then ''armed_away''
      else if event = JStr ''ARM_HOME'' then ''armed_home''
      else if event = JStr ''ARM_NIGHT'' then ''armed_night''
      else if event = JStr ''ARM_VACATION'' then ''armed_vacation''
      else if event = JStr ''ARM_CUSTOM_BYPASS'' then ''armed_custom_bypass''
      else if event = JStr ''TRIGGER'' then ''triggered''
      else ''unknown'')"

text \<open>
  \<^verbatim>\<open>
  function getErrorMessage(event) {
      switch(event) {
          case 'FAILED_TO_ARM': return 'Failed to arm the system. Please check if all sensors are closed.';
          case 'COMMAND_NOT_ALLOWED': return 'Command not allowed in the current state.';
          case 'INVALID_CODE_PROVIDED': return 'Invalid security code provided.';
          case 'NO_CODE_PROVIDED': return 'Security code is required for this operation.';
          default: return 'Failed to change the state of the alarm.';
      }
  }
  \<close>
\<close>

definition getErrorMessage :: "jsval \<Rightarrow> string" where
  "getErrorMessage event =
     (if event = JStr ''FAILED_TO_ARM''
        then ''Failed to arm the system. Please check if all sensors are closed.''
      else if event = JStr ''COMMAND_NOT_ALLOWED''
        then ''Command not allowed in the current state.''
      else if event = JStr ''INVALID_CODE_PROVIDED''
        then ''Invalid security code provided.''
      else if event = JStr ''NO_CODE_PROVIDED''
        then ''Security code is required for this operation.''
      else ''Failed to change the state of the alarm.'')"

section \<open>api/alarm.js: one POST /updateAlarmState request\<close>

text \<open>
  What a request does to the outside, in the order it does it: the timer and listener
  calls, the publish on the command topic (with the object handed to
  \<^verbatim>\<open>JSON.stringify\<close>), the Socket.IO broadcasts \<^verbatim>\<open>io.emit(name, payload)\<close>
  and the HTTP responses \<^verbatim>\<open>res.status(n).json(body)\<close>. \<open>Throw e\<close> is an
  exception that leaves the route handler: the route does nothing after it, and what
  the client is answered then is up to the framework, not to the route.
\<close>

datatype effect =
    SetTimeout nat
  | ClearTimeout
  | AddListener
  | RemoveListener
  | Publish string jsval
  | IoEmit string jsval
  | Respond nat jsval
  | Throw js_error

text \<open>
  The closure of one request: \<open>mode\<close> from the body, \<open>io\<close> (whether
  \<^verbatim>\<open>req.app.locals.io\<close> is set), the flag \<open>hasResponded\<close>,
  \<open>responseTimeout\<close> (the timer is scheduled: neither fired nor cleared),
  \<open>listening\<close> (\<open>responseHandler\<close> is registered for \<open>'message'\<close> on the MQTT
  client) and the effects so far.
\<close>

record request =
  mode :: jsval
  io :: bool
  hasResponded :: bool
  responseTimeout :: bool
  listening :: bool
  trace :: "effect list"

definition setTimeout :: "nat \<Rightarrow> request \<Rightarrow> request" where
  "setTimeout ms s = s\<lparr>responseTimeout := True, trace := trace s @ [SetTimeout ms]\<rparr>"

definition clearTimeout :: "request \<Rightarrow> request" where
  "clearTimeout s = s\<lparr>responseTimeout := False, trace := trace s @ [ClearTimeout]\<rparr>"

definition addListener :: "request \<Rightarrow> request" where
  "addListener s = s\<lparr>listening := True, trace := trace s @ [AddListener]\<rparr>"

definition removeListener :: "request \<Rightarrow> request" where
  "removeListener s = s\<lparr>listening := False, trace := trace s @ [RemoveListener]\<rparr>"

definition publish :: "string \<Rightarrow> jsval \<Rightarrow> request \<Rightarrow> request" where
  "publish topic payload s = s\<lparr>trace := trace s @ [Publish topic payload]\<rparr>"

text \<open>\<^verbatim>\<open>if (io) { io.emit(name, payload); }\<close>\<close>

definition io_emit :: "string \<Rightarrow> jsval \<Rightarrow> request \<Rightarrow> request" where
  "io_emit name payload s =
     (if io s then s\<lparr>trace := trace s @ [IoEmit name payload]\<rparr> else s)"

definition respond :: "nat \<Rightarrow> jsval \<Rightarrow> request \<Rightarrow> request" where
  "respond status body s = s\<lparr>trace := trace s @ [Respond status body]\<rparr>"

definition throw_error :: "js_error \<Rightarrow> request \<Rightarrow> request" where
  "throw_error e s = s\<lparr>trace := trace s @ [Throw e]\<rparr>"

definition set_hasResponded :: "request \<Rightarrow> request" where
  "set_hasResponded s = s\<lparr>hasResponded := True\<rparr>"

text \<open>
  The timer callback (lines 29-45):
  \<^verbatim>\<open>
  const responseTimeout = setTimeout(() => {
      if (!hasResponded) {
          hasResponded = true;
          mqttClient.removeListener('message', responseHandler);
          if (io) { io.emit('alarmUpdateTimeout', { mode }); }
          res.status(504).json({ success: false,
              message: 'Timeout waiting for alarm system response', event: 'TIMEOUT' });
      }
  }, 5000);
  \<close>
\<close>

definition timeout_body :: jsval where
  "timeout_body = JObj [(''success'', JBool False),
     (''message'', JStr ''Timeout waiting for alarm system response''),
     (''event'', JStr ''TIMEOUT'')]"

definition on_timeout :: "request \<Rightarrow> request" where
  "on_timeout s =
     (if \<not> hasResponded s then
        respond 504 timeout_body
          (io_emit ''alarmUpdateTimeout'' (JObj [(''mode'', mode s)])
            (removeListener (set_hasResponded s)))
      else s)"

text \<open>
  The \<^verbatim>\<open>switch (response.event)\<close> of \<open>responseHandler\<close> (lines 57-110). Each
  branch sets \<open>hasResponded\<close>, clears the timer, removes the listener and responds.
\<close>

definition success_body :: "jsval \<Rightarrow> string \<Rightarrow> jsval" where
  "success_body event state =
     JObj [(''success'', JBool True), (''event'', event), (''state'', JStr state)]"

definition failure_body :: "string \<Rightarrow> jsval \<Rightarrow> jsval" where
  "failure_body message event =
     JObj [(''success'', JBool False), (''message'', JStr message), (''event'', event)]"

definition release :: "request \<Rightarrow> request" where
  "release s = removeListener (clearTimeout (set_hasResponded s))"

definition dispatch :: "jsval \<Rightarrow> request \<Rightarrow> request" where
  "dispatch event s =
     (if event = JStr ''ARM_AWAY'' \<or> event = JStr ''ARM_HOME'' \<or> event = JStr ''ARM_NIGHT''
         \<or> event = JStr ''ARM_VACATION'' \<or> event = JStr ''ARM_CUSTOM_BYPASS''
        then respond 200 (success_body event (mapEventToState event)) (release s)
      else if event = JStr ''TRIGGER''
        then respond 200 (success_body event ''triggered'') (release s)
      else if event = JStr ''FAILED_TO_ARM'' \<or> event = JStr ''COMMAND_NOT_ALLOWED''
         \<or> event = JStr ''INVALID_CODE_PROVIDED'' \<or> event = JStr ''NO_CODE_PROVIDED''
        then respond 400 (failure_body (getErrorMessage event) event) (release s)
      else if \<not> hasResponded s
        then respond 400 (failure_body ''Unrecognized alarm event received'' event) (release s)
      else s)"

text \<open>
  The \<^verbatim>\<open>catch (e)\<close> block of \<open>responseHandler\<close> (lines 112-134): it runs when
  \<^verbatim>\<open>JSON.parse\<close> throws and when \<^verbatim>\<open>response.event\<close> throws.
\<close>

definition parse_error_payload :: jsval where
  "parse_error_payload = JObj [(''error'', JStr ''PARSE_ERROR''),
     (''message'', JStr ''Failed to parse alarm system response'')]"

definition parse_error_body :: jsval where
  "parse_error_body = JObj [(''success'', JBool False),
     (''message'', JStr ''Failed to parse alarm system response'')]"

definition on_parse_error :: "request \<Rightarrow> request" where
  "on_parse_error s =
     (if \<not> hasResponded s then
        respond 500 parse_error_body
          (io_emit ''alarmUpdateError'' parse_error_payload (release s))
      else s)"

text \<open>
  \<open>responseHandler(topic, message)\<close> (lines 48-151), with \<open>message\<close> the text
  \<^verbatim>\<open>message.toString()\<close>. On the event topic the text is parsed first; the event
  is read only when \<open>hasResponded\<close> is false. The state-topic branch tests neither
  \<open>hasResponded\<close> nor \<open>mode\<close>:
  \<^verbatim>\<open>
  if (topic === 'alarmo/state') {
      const state = message.toString();
      if (state === 'disarmed') {
          hasResponded = true;
          clearTimeout(responseTimeout);
          mqttClient.removeListener('message', responseHandler);
          res.status(200).json({ success: true, event: 'DISARMED', state: 'disarmed' });
      }
  }
  \<close>
\<close>

definition on_event_topic :: "json_parse \<Rightarrow> string \<Rightarrow> request \<Rightarrow> request" where
  "on_event_topic parse message s =
     (case parse message of
        Inl e \<Rightarrow> on_parse_error s
      | Inr response \<Rightarrow>
          if \<not> hasResponded s then
            (case event_of response of
               Inl e \<Rightarrow> on_parse_error s
             | Inr event \<Rightarrow> dispatch event s)
          else s)"

definition on_state_topic :: "string \<Rightarrow> request \<Rightarrow> request" where
  "on_state_topic message s =
     (if message = ''disarmed''
        then respond 200 (success_body (JStr ''DISARMED'') ''disarmed'') (release s)
      else s)"

definition responseHandler :: "json_parse \<Rightarrow> string \<Rightarrow> string \<Rightarrow> request \<Rightarrow> request" where
  "responseHandler parse topic message s =
     (let s1 = (if topic = ''alarmo/event'' then on_event_topic parse message s else s)
      in if topic = ''alarmo/state'' then on_state_topic message s1 else s1)"

text \<open>
  The route handler (lines 11-183), with \<open>m\<close> and \<open>code\<close> the fields
  \<open>mode\<close> and \<open>code\<close> of the request body. Its first statement is
  \<^verbatim>\<open>console.log(`Updating alarm state with mode: ${mode}, code: ${code}`);\<close>
  which converts both to strings, before the code is tested: when a conversion throws,
  the exception leaves the handler and nothing else of it runs. \<open>publish_ok\<close> says
  whether \<^verbatim>\<open>mqttClient.publish\<close> returns (True) or throws (False); the timer and
  the listener are set up before the publish is attempted.
\<close>

definition new_request :: "bool \<Rightarrow> jsval \<Rightarrow> request" where
  "new_request io_set m =
     \<lparr>mode = m, io = io_set, hasResponded = False, responseTimeout = False,
      listening = False, trace = []\<rparr>"

definition code_required_body :: jsval where
  "code_required_body =
     JObj [(''success'', JBool False), (''message'', JStr ''Security code is required'')]"

definition publish_error_payload :: jsval where
  "publish_error_payload = JObj [(''error'', JStr ''MQTT_PUBLISH_ERROR''),
     (''message'', JStr ''Failed to send command to alarm system'')]"

definition publish_error_body :: jsval where
  "publish_error_body = JObj [(''success'', JBool False),
     (''message'', JStr ''Failed to send command to alarm system'')]"

definition on_publish_error :: "request \<Rightarrow> request" where
  "on_publish_error s =
     respond 500 publish_error_body
       (io_emit ''alarmUpdateError'' publish_error_payload
         (set_hasResponded (removeListener (clearTimeout s))))"

definition updateAlarmState :: "bool \<Rightarrow> bool \<Rightarrow> jsval \<Rightarrow> jsval \<Rightarrow> request" where
  "updateAlarmState io_set publish_ok m code =
     (if to_string_throws m \<or> to_string_throws code
        then throw_error TypeError (new_request io_set m)
      else if \<not> truthy code then respond 400 code_required_body (new_request io_set m)
      else
        let s = addListener (setTimeout 5000 (new_request io_set m))
        in if publish_ok
           then publish ''alarmo/command'' (JObj [(''command'', m), (''code'', code)]) s
           else on_publish_error s)"

text \<open>
  What the runtime delivers to a request afterwards: the timer firing, which runs the
  callback only while the timer is scheduled (a cleared timer never fires, a fired one
  does not fire again), and a \<open>'message'\<close> emitted by the MQTT client, which reaches
  \<open>responseHandler\<close> only while it is registered.
\<close>

datatype delivery = Deadline | Message string string

fun step :: "json_parse \<Rightarrow> delivery \<Rightarrow> request \<Rightarrow> request" where
  "step parse Deadline s =
     (if responseTimeout s then on_timeout (s\<lparr>responseTimeout := False\<rparr>) else s)"
| "step parse (Message topic message) s =
     (if listening s then responseHandler parse topic message s else s)"

fun run :: "json_parse \<Rightarrow> delivery list \<Rightarrow> request \<Rightarrow> request" where
  "run parse [] s = s"
| "run parse (d # ds) s = run parse ds (step parse d s)"

text \<open>The HTTP responses, the broadcasts and the publishes among the effects.\<close>

fun responses :: "effect list \<Rightarrow> (nat \<times> jsval) list" where
  "responses [] = []"
| "responses (Respond status body # es) = (status, body) # responses es"
| "responses (e # es) = responses es"

fun broadcasts :: "effect list \<Rightarrow> (string \<times> jsval) list" where
  "broadcasts [] = []"
| "broadcasts (IoEmit name payload # es) = (name, payload) # broadcasts es"
| "broadcasts (e # es) = broadcasts es"

fun publishes :: "effect list \<Rightarrow> (string \<times> jsval) list" where
  "publishes [] = []"
| "publishes (Publish topic payload # es) = (topic, payload) # publishes es"
| "publishes (e # es) = publishes es"

text \<open>
  A request is pending when it has published its command and nothing has settled it:
  the flag is unset, the timer scheduled, the listener registered, no response sent.
\<close>

definition pending :: "request \<Rightarrow> bool" where
  "pending s \<longleftrightarrow>
     \<not> hasResponded s \<and> responseTimeout s \<and> listening s \<and> responses (trace s) = []"

text \<open>
  A settled request: the flag, timer and listener as every settling branch leaves them,
  and the effects of that branch appended.
\<close>

definition settled_with :: "effect list \<Rightarrow> request \<Rightarrow> request" where
  "settled_with es s =
     s\<lparr>hasResponded := True, responseTimeout := False, listening := False,
       trace := trace s @ es\<rparr>"

text \<open>
  A request is released when its timer is no longer scheduled and its listener no longer
  registered; from then on the runtime delivers nothing to it.
\<close>

definition released :: "request \<Rightarrow> bool" where
  "released s \<longleftrightarrow> \<not> responseTimeout s \<and> \<not> listening s"

definition settled_once :: "request \<Rightarrow> bool" where
  "settled_once s \<longleftrightarrow> length (responses (trace s)) = 1 \<and> released s"

text \<open>
  The MQTT client calls every registered \<open>'message'\<close> listener with the same topic and
  message: one emitted message reaches all the requests in flight.
\<close>

definition emit_message :: "json_parse \<Rightarrow> string \<Rightarrow> string \<Rightarrow> request list \<Rightarrow> request list" where
  "emit_message parse topic message rs = map (step parse (Message topic message)) rs"

text \<open>
  The tables of the specification: the arming and trigger events with the state each maps
  to, the rejection events, and the message the code gives for each rejection.
\<close>

definition arming_event_states :: "(string \<times> string) list" where
  "arming_event_states =
     [(''ARM_AWAY'', ''armed_away''), (''ARM_HOME'', ''armed_home''),
      (''ARM_NIGHT'', ''armed_night''), (''ARM_VACATION'', ''armed_vacation''),
      (''ARM_CUSTOM_BYPASS'', ''armed_custom_bypass''), (''TRIGGER'', ''triggered'')]"

definition rejection_messages :: "(string \<times> string) list" where
  "rejection_messages =
     [(''FAILED_TO_ARM'', ''Failed to arm the system. Please check if all sensors are closed.''),
      (''COMMAND_NOT_ALLOWED'', ''Command not allowed in the current state.''),
      (''INVALID_CODE_PROVIDED'', ''Invalid security code provided.''),
      (''NO_CODE_PROVIDED'', ''Security code is required for this operation.'')]"

definition known_events :: "string list" where
  "known_events = map fst arming_event_states @ map fst rejection_messages"

section \<open>server.js: the state cache and the Socket.IO clients\<close>

text \<open>
  \<open>alarmState\<close> is \<^verbatim>\<open>app.locals.alarmState\<close>, \<open>undefined\<close> until the first
  state message. \<open>sockets\<close> are the connected clients, \<open>delivered\<close> the
  notifications sent so far: the receiving socket, the event name and the payload.
\<close>

record server =
  alarmState :: jsval
  sockets :: "nat list"
  delivered :: "(nat \<times> string \<times> jsval) list"

definition initial_server :: server where
  "initial_server = \<lparr>alarmState = JUndefined, sockets = [], delivered = []\<rparr>"

text \<open>\<^verbatim>\<open>topic.startsWith(p)\<close> and \<^verbatim>\<open>topic.endsWith(p)\<close>.\<close>

definition startsWith :: "string \<Rightarrow> string \<Rightarrow> bool" where
  "startsWith s p \<longleftrightarrow> take (length p) s = p"

definition endsWith :: "string \<Rightarrow> string \<Rightarrow> bool" where
  "endsWith s p \<longleftrightarrow> length p \<le> length s \<and> drop (length s - length p) s = p"

text \<open>
  \<^verbatim>\<open>io.emit\<close> sends to every connected client, \<^verbatim>\<open>socket.emit\<close> to one.
\<close>

definition io_emit_all :: "string \<Rightarrow> jsval \<Rightarrow> server \<Rightarrow> server" where
  "io_emit_all name payload sv =
     sv\<lparr>delivered := delivered sv @ map (\<lambda>k. (k, name, payload)) (sockets sv)\<rparr>"

definition socket_emit :: "nat \<Rightarrow> string \<Rightarrow> jsval \<Rightarrow> server \<Rightarrow> server" where
  "socket_emit sock name payload sv =
     sv\<lparr>delivered := delivered sv @ [(sock, name, payload)]\<rparr>"

definition state_changed :: "string \<Rightarrow> jsval \<Rightarrow> string \<Rightarrow> jsval" where
  "state_changed topic state now =
     JObj [(''topic'', JStr topic), (''state'', state), (''timestamp'', JStr now)]"

text \<open>
  \<^verbatim>\<open>
  mqttClient.on('message', (topic, message) => {
      if (topic === 'alarmo/state' || topic.startsWith('alarmo/') && topic.endsWith('/state')) {
          const state = message.toString();
          app.locals.alarmState = state;
          io.emit('alarmStateChanged', {
              topic: topic, state: state, timestamp: new Date().toISOString() });
      }
  });
  \<close>
  \<open>now\<close> is what \<^verbatim>\<open>new Date().toISOString()\<close> returns when the handler runs.
\<close>

definition on_message :: "string \<Rightarrow> string \<Rightarrow> string \<Rightarrow> server \<Rightarrow> server" where
  "on_message topic message now sv =
     (if topic = ''alarmo/state'' \<or> (startsWith topic ''alarmo/'' \<and> endsWith topic ''/state'')
      then io_emit_all ''alarmStateChanged'' (state_changed topic (JStr message) now)
             (sv\<lparr>alarmState := JStr message\<rparr>)
      else sv)"

text \<open>
  \<^verbatim>\<open>
  io.on('connection', (socket) => {
      if (app.locals.alarmState) {
          socket.emit('alarmStateChanged', {
              topic: 'alarmo/state', state: app.locals.alarmState,
              timestamp: new Date().toISOString() });
      }
      socket.on('disconnect', () => { console.log('Client disconnected'); });
  });
  \<close>
  The socket is among the connected clients when the handler runs, and leaves them when
  it disconnects.
\<close>

definition on_connection :: "nat \<Rightarrow> string \<Rightarrow> server \<Rightarrow> server" where
  "on_connection sock now sv =
     (let sv1 = sv\<lparr>sockets := sockets sv @ [sock]\<rparr>
      in if truthy (alarmState sv1)
         then socket_emit sock ''alarmStateChanged''
                (state_changed ''alarmo/state'' (alarmState sv1) now) sv1
         else sv1)"

definition on_disconnect :: "nat \<Rightarrow> server \<Rightarrow> server" where
  "on_disconnect sock sv = sv\<lparr>sockets := removeAll sock (sockets sv)\<rparr>"

text \<open>The notifications one socket has received, in order.\<close>

definition received :: "nat \<Rightarrow> server \<Rightarrow> (string \<times> jsval) list" where
  "received sock sv = map snd (filter (\<lambda>d. fst d = sock) (delivered sv))"

section \<open>Sample data for the concrete runs\<close>

text \<open>
  A parser that knows four payloads, each decoded as \<^verbatim>\<open>JSON.parse\<close> decodes it,
  and rejects every other text.
\<close>

definition sample_payloads :: "(string \<times> jsval) list" where
  \<open>sample_payloads =
     [(''{"event":"ARM_AWAY"}'', JObj [(''event'', JStr ''ARM_AWAY'')]),
      (''{"event":"INVALID_CODE_PROVIDED"}'', JObj [(''event'', JStr ''INVALID_CODE_PROVIDED'')]),
      (''{"event":"DISARM"}'', JObj [(''event'', JStr ''DISARM'')]),
      (''null'', JNull)]\<close>

definition sample_parse :: json_parse where
  "sample_parse text =
     (case map_of sample_payloads text of Some v \<Rightarrow> Inr v | None \<Rightarrow> Inl SyntaxError)"

definition arm_home_1234 :: request where
  "arm_home_1234 = updateAlarmState True True (JStr ''arm_home'') (JStr ''1234'')"

definition arm_away_1234 :: request where
  "arm_away_1234 = updateAlarmState True True (JStr ''arm_away'') (JStr ''1234'')"

definition arm_away_event :: string where
  \<open>arm_away_event = ''{"event":"ARM_AWAY"}''\<close>

definition invalid_code_event :: string where
  \<open>invalid_code_event = ''{"event":"INVALID_CODE_PROVIDED"}''\<close>

definition disarm_event :: string where
  \<open>disarm_event = ''{"event":"DISARM"}''\<close>

text \<open>A server whose cache holds the empty string: one empty state message has arrived.\<close>

definition server_after_empty_state :: server where
  "server_after_empty_state = on_message ''alarmo/state'' [] ''2025-01-01T00:00:00.000Z'' initial_server"

text \<open>A server with one client whose cache holds \<open>armed_home\<close>.\<close>

definition server_armed_home :: server where
  "server_armed_home =
     on_message ''alarmo/state'' ''armed_home'' ''2025-01-01T00:00:00.000Z''
       (on_connection 1 ''2024-12-31T23:59:59.000Z'' initial_server)"

section \<open>Theorems\<close>

lemma responses_append: "responses (xs @ ys) = responses xs @ responses ys"
  by (induction xs rule: responses.induct) simp_all

lemma broadcasts_append: "broadcasts (xs @ ys) = broadcasts xs @ broadcasts ys"
  by (induction xs rule: broadcasts.induct) simp_all

lemma publishes_append: "publishes (xs @ ys) = publishes xs @ publishes ys"
  by (induction xs rule: publishes.induct) simp_all

lemmas effect_defs =
  setTimeout_def clearTimeout_def addListener_def removeListener_def publish_def
  io_emit_def respond_def set_hasResponded_def release_def new_request_def throw_error_def

subsection \<open>The branches of the handler\<close>

lemma respond_release:
  "respond st body (release s) = settled_with [ClearTimeout, RemoveListener, Respond st body] s"
  by (simp add: settled_with_def effect_defs)

lemma arming_cases:
  "(e, st) \<in> set arming_event_states \<Longrightarrow>
     (e = ''ARM_AWAY'' \<and> st = ''armed_away'') \<or> (e = ''ARM_HOME'' \<and> st = ''armed_home'')
   \<or> (e = ''ARM_NIGHT'' \<and> st = ''armed_night'') \<or> (e = ''ARM_VACATION'' \<and> st = ''armed_vacation'')
   \<or> (e = ''ARM_CUSTOM_BYPASS'' \<and> st = ''armed_custom_bypass'') \<or> (e = ''TRIGGER'' \<and> st = ''triggered'')"
  unfolding arming_event_states_def by simp

lemma dispatch_arming:
  assumes "(e, st) \<in> set arming_event_states"
  shows "dispatch (JStr e) s = respond 200 (success_body (JStr e) st) (release s)"
  using arming_cases [OF assms]
  by (elim disjE conjE) (simp_all add: dispatch_def mapEventToState_def)

lemma mapEventToState_table:
  assumes "(e, st) \<in> set arming_event_states"
  shows "mapEventToState (JStr e) = st"
  using arming_cases [OF assms]
  by (elim disjE conjE) (simp_all add: mapEventToState_def)

lemma getErrorMessage_table:
  assumes "(e, msg) \<in> set rejection_messages"
  shows "getErrorMessage (JStr e) = msg"
  using assms unfolding rejection_messages_def
  by (auto simp add: getErrorMessage_def)

lemma rejection_cases:
  "(e, msg) \<in> set rejection_messages \<Longrightarrow>
     (e = ''FAILED_TO_ARM'' \<and> msg = ''Failed to arm the system. Please check if all sensors are closed.'')
   \<or> (e = ''COMMAND_NOT_ALLOWED'' \<and> msg = ''Command not allowed in the current state.'')
   \<or> (e = ''INVALID_CODE_PROVIDED'' \<and> msg = ''Invalid security code provided.'')
   \<or> (e = ''NO_CODE_PROVIDED'' \<and> msg = ''Security code is required for this operation.'')"
  unfolding rejection_messages_def by simp

lemma dispatch_rejection:
  assumes "(e, msg) \<in> set rejection_messages"
  shows "dispatch (JStr e) s = respond 400 (failure_body msg (JStr e)) (release s)"
  using rejection_cases [OF assms]
  by (elim disjE conjE) (simp_all add: dispatch_def getErrorMessage_def)

lemma known_events_eq:
  "known_events = [''ARM_AWAY'', ''ARM_HOME'', ''ARM_NIGHT'', ''ARM_VACATION'',
     ''ARM_CUSTOM_BYPASS'', ''TRIGGER'', ''FAILED_TO_ARM'', ''COMMAND_NOT_ALLOWED'',
     ''INVALID_CODE_PROVIDED'', ''NO_CODE_PROVIDED'']"
  by (simp add: known_events_def arming_event_states_def rejection_messages_def)

lemma dispatch_unrecognized:
  assumes "event \<notin> JStr ` set known_events" "\<not> hasResponded s"
  shows "dispatch event s =
     respond 400 (failure_body ''Unrecognized alarm event received'' event) (release s)"
proof -
  have "event \<noteq> JStr ''ARM_AWAY''" "event \<noteq> JStr ''ARM_HOME''" "event \<noteq> JStr ''ARM_NIGHT''"
    "event \<noteq> JStr ''ARM_VACATION''" "event \<noteq> JStr ''ARM_CUSTOM_BYPASS''"
    "event \<noteq> JStr ''TRIGGER''" "event \<noteq> JStr ''FAILED_TO_ARM''"
    "event \<noteq> JStr ''COMMAND_NOT_ALLOWED''" "event \<noteq> JStr ''INVALID_CODE_PROVIDED''"
    "event \<noteq> JStr ''NO_CODE_PROVIDED''"
    using assms(1) unfolding known_events_eq by auto
  then show ?thesis using assms(2) by (simp add: dispatch_def)
qed




lemma settled_once_settled_with:
  "responses (trace s) = [] \<Longrightarrow> length (responses es) = 1 \<Longrightarrow> settled_once (settled_with es s)"
  by (simp add: settled_once_def released_def settled_with_def responses_append)

lemma settled_once_respond_release:
  "pending s \<Longrightarrow> settled_once (respond st body (release s))"
  by (simp add: respond_release settled_once_settled_with pending_def)

lemma settled_once_dispatch: "pending s \<Longrightarrow> settled_once (dispatch event s)"
  by (simp add: dispatch_def settled_once_respond_release) (simp add: pending_def)

lemma on_parse_error_pending:
  "pending s \<Longrightarrow> on_parse_error s =
     settled_with ([ClearTimeout, RemoveListener]
       @ (if io s then [IoEmit ''alarmUpdateError'' parse_error_payload] else [])
       @ [Respond 500 parse_error_body]) s"
  by (simp add: on_parse_error_def pending_def settled_with_def effect_defs)

lemma settled_once_on_parse_error: "pending s \<Longrightarrow> settled_once (on_parse_error s)"
  by (simp add: on_parse_error_pending settled_once_settled_with pending_def)

lemma settled_once_on_event_topic: "pending s \<Longrightarrow> settled_once (on_event_topic parse message s)"
  by (simp add: on_event_topic_def settled_once_on_parse_error settled_once_dispatch
      split: sum.split) (simp add: pending_def)

lemma on_state_topic_cases:
  "pending s \<Longrightarrow> pending (on_state_topic message s) \<or> settled_once (on_state_topic message s)"
  by (simp add: on_state_topic_def settled_once_respond_release)

lemma responseHandler_event:
  "responseHandler parse ''alarmo/event'' message s = on_event_topic parse message s"
  by (simp add: responseHandler_def)

lemma responseHandler_state:
  "responseHandler parse ''alarmo/state'' message s = on_state_topic message s"
  by (simp add: responseHandler_def)

lemma responseHandler_other:
  "topic \<noteq> ''alarmo/event'' \<Longrightarrow> topic \<noteq> ''alarmo/state'' \<Longrightarrow>
     responseHandler parse topic message s = s"
  by (simp add: responseHandler_def)

lemma responseHandler_cases:
  assumes "pending s"
  shows "pending (responseHandler parse topic message s)
       \<or> settled_once (responseHandler parse topic message s)"
proof (cases "topic = ''alarmo/event''")
  case True
  then show ?thesis
    using assms by (simp add: responseHandler_event settled_once_on_event_topic)
next
  case False
  show ?thesis
  proof (cases "topic = ''alarmo/state''")
    case True
    then show ?thesis using assms by (simp add: responseHandler_state on_state_topic_cases)
  next
    case False
    with \<open>topic \<noteq> ''alarmo/event''\<close> show ?thesis
      using assms by (simp add: responseHandler_other)
  qed
qed

lemma on_timeout_pending:
  "pending s \<Longrightarrow> step parse Deadline s =
     settled_with ([RemoveListener]
       @ (if io s then [IoEmit ''alarmUpdateTimeout'' (JObj [(''mode'', mode s)])] else [])
       @ [Respond 504 timeout_body]) s"
  by (simp add: on_timeout_def pending_def settled_with_def effect_defs)

lemma settled_once_deadline:
  assumes "pending s"
  shows "settled_once (step parse Deadline s)"
proof -
  have "responses (trace s) = []"
    using assms by (simp add: pending_def)
  then show ?thesis
    unfolding on_timeout_pending [OF assms]
    by (intro settled_once_settled_with) simp_all
qed

lemma step_cases:
  assumes "pending s"
  shows "pending (step parse d s) \<or> settled_once (step parse d s)"
proof (cases d)
  case Deadline
  then show ?thesis using assms by (simp only: settled_once_deadline simp_thms)
next
  case (Message topic message)
  then show ?thesis using assms responseHandler_cases [OF assms, of parse topic message]
    by (simp add: pending_def)
qed

lemma released_step: "released s \<Longrightarrow> step parse d s = s"
  by (cases d) (simp_all add: released_def)

lemma released_run: "released s \<Longrightarrow> run parse ds s = s"
  by (induction ds) (simp_all add: released_step)

lemma settled_once_run: "settled_once s \<Longrightarrow> run parse ds s = s"
  by (simp add: settled_once_def released_run)

lemma run_cases:
  "pending s \<Longrightarrow> (pending (run parse ds s) \<and> Deadline \<notin> set ds) \<or> settled_once (run parse ds s)"
proof (induction ds arbitrary: s)
  case Nil
  then show ?case by simp
next
  case (Cons d ds)
  show ?case
  proof (cases "d = Deadline")
    case True
    then have "settled_once (step parse d s)"
      using Cons.prems by (simp only: settled_once_deadline)
    then show ?thesis by (simp add: settled_once_run)
  next
    case False
    from step_cases [OF Cons.prems, of parse d] show ?thesis
    proof
      assume "pending (step parse d s)"
      from Cons.IH [OF this] False show ?thesis by auto
    next
      assume "settled_once (step parse d s)"
      then show ?thesis by (simp add: settled_once_run)
    qed
  qed
qed

lemma falsy_has_string: "\<not> truthy v \<Longrightarrow> \<not> to_string_throws v"
  by (cases v) simp_all

lemma updateAlarmState_thrown:
  "to_string_throws m \<or> to_string_throws code \<Longrightarrow>
     updateAlarmState io_set publish_ok m code = (new_request io_set m)\<lparr>trace := [Throw TypeError]\<rparr>"
  by (simp add: updateAlarmState_def throw_error_def new_request_def)

text \<open>
  For the body \<^verbatim>\<open>{"mode": {"toString": 1}, "code": ""}\<close> the route throws at its
  first statement: it sends no response of its own and sets up nothing. The same holds
  whenever one of the two conversions throws, and no delivery reaches such a request.
\<close>

lemma updateAlarmState_unprintable_mode:
  "updateAlarmState True True (JObj [(''toString'', JNum 1)]) (JStr []) =
     \<lparr>mode = JObj [(''toString'', JNum 1)], io = True, hasResponded = False,
      responseTimeout = False, listening = False, trace = [Throw TypeError]\<rparr>"
  by (simp add: updateAlarmState_def throw_error_def new_request_def)

lemma updateAlarmState_thrown_run:
  assumes "to_string_throws m \<or> to_string_throws code"
  shows "run parse ds (updateAlarmState io_set publish_ok m code) =
     (new_request io_set m)\<lparr>trace := [Throw TypeError]\<rparr>"
proof -
  have "released ((new_request io_set m)\<lparr>trace := [Throw TypeError]\<rparr>)"
    by (simp add: released_def new_request_def)
  then show ?thesis
    by (simp only: updateAlarmState_thrown [OF assms] released_run)
qed

lemma updateAlarmState_cases:
  "\<not> to_string_throws m \<Longrightarrow> \<not> to_string_throws code \<Longrightarrow>
   (truthy code \<and> publish_ok \<and> pending (updateAlarmState io_set publish_ok m code))
   \<or> settled_once (updateAlarmState io_set publish_ok m code)"
  by (simp add: updateAlarmState_def on_publish_error_def pending_def settled_once_def
      released_def effect_defs Let_def)

subsection \<open>Settlement\<close>

lemma arm_home_1234_eq:
  "arm_home_1234 = \<lparr>mode = JStr ''arm_home'', io = True, hasResponded = False,
     responseTimeout = True, listening = True,
     trace = [SetTimeout 5000, AddListener,
       Publish ''alarmo/command'' (JObj [(''command'', JStr ''arm_home''), (''code'', JStr ''1234'')])]\<rparr>"
  by (simp add: arm_home_1234_def updateAlarmState_def effect_defs)

lemma pending_arm_home_1234: "pending arm_home_1234"
  by (simp add: arm_home_1234_eq pending_def)

text \<open>
  C1. For every mode and credential that the route can log (each has a string conversion,
  as every string has), one call of the command operation sends at most one HTTP
  response. While no response has been sent the request is pending (timer scheduled,
  listener registered) and the deadline has not passed; once the deadline has passed there
  is exactly one response. After the response the timer is no longer scheduled, the
  listener is no longer registered, and no later delivery changes the request: no second
  settlement runs.
\<close>

theorem command_settles_exactly_once:
  assumes "\<not> to_string_throws m" and "\<not> to_string_throws code"
  shows "(let s = run parse ds (updateAlarmState io_set publish_ok m code) in
      length (responses (trace s)) \<le> 1
    \<and> (responses (trace s) = [] \<longrightarrow> pending s \<and> truthy code \<and> publish_ok \<and> Deadline \<notin> set ds)
    \<and> (Deadline \<in> set ds \<longrightarrow> length (responses (trace s)) = 1)
    \<and> (responses (trace s) \<noteq> [] \<longrightarrow> released s \<and> run parse ds' s = s))"
proof -
  define s0 where "s0 = updateAlarmState io_set publish_ok m code"
  define s where "s = run parse ds s0"
  have "(pending s \<and> truthy code \<and> publish_ok \<and> Deadline \<notin> set ds) \<or> settled_once s"
  proof -
    from updateAlarmState_cases [OF assms, of publish_ok io_set]
    show ?thesis
    proof
      assume a: "truthy code \<and> publish_ok \<and> pending (updateAlarmState io_set publish_ok m code)"
      then have "pending s0" unfolding s0_def by blast
      from run_cases [OF this, of parse ds] a show ?thesis by (auto simp: s_def)
    next
      assume "settled_once (updateAlarmState io_set publish_ok m code)"
      then have "settled_once s0" unfolding s0_def .
      then show ?thesis by (simp add: s_def settled_once_run)
    qed
  qed
  then have "length (responses (trace s)) \<le> 1
    \<and> (responses (trace s) = [] \<longrightarrow> pending s \<and> truthy code \<and> publish_ok \<and> Deadline \<notin> set ds)
    \<and> (Deadline \<in> set ds \<longrightarrow> length (responses (trace s)) = 1)
    \<and> (responses (trace s) \<noteq> [] \<longrightarrow> released s \<and> run parse ds' s = s)"
  proof
    assume "pending s \<and> truthy code \<and> publish_ok \<and> Deadline \<notin> set ds"
    then show ?thesis by (simp add: pending_def)
  next
    assume so: "settled_once s"
    then have "run parse ds' s = s" by (rule settled_once_run)
    with so show ?thesis by (auto simp: settled_once_def)
  qed
  then show ?thesis unfolding s_def s0_def Let_def .
qed

subsection \<open>Concrete runs\<close>

lemma run_arm_home_sample:
  "run sample_parse [Message ''alarmo/event'' arm_away_event, Deadline,
       Message ''alarmo/state'' ''disarmed''] arm_home_1234 =
   settled_with [ClearTimeout, RemoveListener,
       Respond 200 (JObj [(''success'', JBool True), (''event'', JStr ''ARM_AWAY''),
         (''state'', JStr ''armed_away'')])] arm_home_1234"
  by (simp add: arm_home_1234_eq arm_away_event_def sample_parse_def sample_payloads_def
      responseHandler_def on_event_topic_def dispatch_def mapEventToState_def success_body_def
      settled_with_def effect_defs)

theorem command_settles_exactly_once_witness:
  "\<not> to_string_throws (JStr ''arm_home'') \<and> \<not> to_string_throws (JStr ''1234'')
   \<and> responses (trace (run sample_parse [Message ''alarmo/event'' arm_away_event, Deadline,
       Message ''alarmo/state'' ''disarmed''] (updateAlarmState True True (JStr ''arm_home'') (JStr ''1234'')))) =
     [(200, JObj [(''success'', JBool True), (''event'', JStr ''ARM_AWAY''), (''state'', JStr ''armed_away'')])]
   \<and> released (run sample_parse [Message ''alarmo/event'' arm_away_event, Deadline,
       Message ''alarmo/state'' ''disarmed''] (updateAlarmState True True (JStr ''arm_home'') (JStr ''1234'')))
   \<and> run sample_parse [Deadline, Message ''alarmo/event'' invalid_code_event]
       (run sample_parse [Message ''alarmo/event'' arm_away_event, Deadline,
         Message ''alarmo/state'' ''disarmed''] (updateAlarmState True True (JStr ''arm_home'') (JStr ''1234'')))
     = run sample_parse [Message ''alarmo/event'' arm_away_event, Deadline,
         Message ''alarmo/state'' ''disarmed''] (updateAlarmState True True (JStr ''arm_home'') (JStr ''1234''))"
proof -
  have m: "\<not> to_string_throws (JStr ''arm_home'')" and c: "\<not> to_string_throws (JStr ''1234'')"
    by simp_all
  from command_settles_exactly_once [OF m c, where parse = sample_parse
      and ds = "[Message ''alarmo/event'' arm_away_event, Deadline,
        Message ''alarmo/state'' ''disarmed'']"
      and io_set = True and publish_ok = True
      and ds' = "[Deadline, Message ''alarmo/event'' invalid_code_event]"]
    run_arm_home_sample
  show ?thesis
    by (simp add: Let_def arm_home_1234_def [symmetric] settled_with_def responses_append
        arm_home_1234_eq)
qed

subsection \<open>Single deliveries to a pending request\<close>

lemma sample_parse_arm_away:
  "sample_parse arm_away_event = Inr (JObj [(''event'', JStr ''ARM_AWAY'')])"
  by (simp add: sample_parse_def sample_payloads_def arm_away_event_def)

lemma sample_parse_invalid_code:
  "sample_parse invalid_code_event = Inr (JObj [(''event'', JStr ''INVALID_CODE_PROVIDED'')])"
  by (simp add: sample_parse_def sample_payloads_def invalid_code_event_def)

lemma sample_parse_disarm:
  "sample_parse disarm_event = Inr (JObj [(''event'', JStr ''DISARM'')])"
  by (simp add: sample_parse_def sample_payloads_def disarm_event_def)

lemma sample_parse_null: "sample_parse ''null'' = Inr JNull"
  by (simp add: sample_parse_def sample_payloads_def)

lemma arm_away_1234_eq:
  "arm_away_1234 = \<lparr>mode = JStr ''arm_away'', io = True, hasResponded = False,
     responseTimeout = True, listening = True,
     trace = [SetTimeout 5000, AddListener,
       Publish ''alarmo/command'' (JObj [(''command'', JStr ''arm_away''), (''code'', JStr ''1234'')])]\<rparr>"
  by (simp add: arm_away_1234_def updateAlarmState_def effect_defs)

lemma pending_arm_away_1234: "pending arm_away_1234"
  by (simp add: arm_away_1234_eq pending_def)

lemma step_type_error:
  assumes "pending s" "parse message = Inr response" "event_of response = Inl e"
  shows "step parse (Message ''alarmo/event'' message) s =
     settled_with ([ClearTimeout, RemoveListener]
       @ (if io s then [IoEmit ''alarmUpdateError'' parse_error_payload] else [])
       @ [Respond 500 parse_error_body]) s"
proof -
  from assms(1) have l: "listening s" by (simp add: pending_def)
  have "step parse (Message ''alarmo/event'' message) s = on_parse_error s"
    using l assms(2,3) by (simp add: responseHandler_event on_event_topic_def on_parse_error_def)
  then show ?thesis
    by (simp only: on_parse_error_pending [OF assms(1)])
qed

text \<open>
  C3. For every pending command, an event-topic message that decodes to one of ARM_AWAY,
  ARM_HOME, ARM_NIGHT, ARM_VACATION, ARM_CUSTOM_BYPASS, TRIGGER settles the command: the
  timer is cleared, the listener removed and the one response is 200 with
  \<open>success: true\<close>, that event and the state the table \<open>arming_event_states\<close> gives
  for it.
\<close>

theorem arming_event_settles_with_success:
  assumes "pending s"
    and "parse message = Inr response"
    and "event_of response = Inr (JStr e)"
    and "(e, st) \<in> set arming_event_states"
  shows "step parse (Message ''alarmo/event'' message) s =
     settled_with [ClearTimeout, RemoveListener,
       Respond 200 (JObj [(''success'', JBool True), (''event'', JStr e), (''state'', JStr st)])] s"
proof -
  from assms(1) have l: "listening s" and h: "\<not> hasResponded s"
    by (simp_all add: pending_def)
  have "step parse (Message ''alarmo/event'' message) s = dispatch (JStr e) s"
    using l h assms(2,3) by (simp add: responseHandler_event on_event_topic_def)
  also have "\<dots> = respond 200 (success_body (JStr e) st) (release s)"
    by (rule dispatch_arming [OF assms(4)])
  finally show ?thesis
    by (simp only: respond_release success_body_def)
qed

theorem arming_event_settles_with_success_witness:
  "pending arm_away_1234
   \<and> sample_parse arm_away_event = Inr (JObj [(''event'', JStr ''ARM_AWAY'')])
   \<and> event_of (JObj [(''event'', JStr ''ARM_AWAY'')]) = Inr (JStr ''ARM_AWAY'')
   \<and> (''ARM_AWAY'', ''armed_away'') \<in> set arming_event_states
   \<and> step sample_parse (Message ''alarmo/event'' arm_away_event) arm_away_1234 =
       settled_with [ClearTimeout, RemoveListener,
         Respond 200 (JObj [(''success'', JBool True), (''event'', JStr ''ARM_AWAY''),
           (''state'', JStr ''armed_away'')])] arm_away_1234"
proof -
  have p: "pending arm_away_1234" by (rule pending_arm_away_1234)
  have e: "event_of (JObj [(''event'', JStr ''ARM_AWAY'')]) = Inr (JStr ''ARM_AWAY'')"
    by simp
  have m: "(''ARM_AWAY'', ''armed_away'') \<in> set arming_event_states"
    by (simp add: arming_event_states_def)
  from arming_event_settles_with_success [where parse = sample_parse
      and message = arm_away_event, OF p sample_parse_arm_away e m]
    p sample_parse_arm_away e m
  show ?thesis by (simp only: simp_thms)
qed

text \<open>
  C4 as stated does not hold for every content that is JSON. The text \<open>null\<close> is
  JSON; \<^verbatim>\<open>JSON.parse\<close> returns \<open>null\<close>, reading \<^verbatim>\<open>response.event\<close>
  throws, and the \<^verbatim>\<open>catch\<close> block answers 500 with the parse-failure message, not
  400 with the unrecognized-event message.
\<close>

theorem null_event_is_a_parse_failure:
  "pending arm_home_1234
   \<and> sample_parse ''null'' = Inr JNull
   \<and> responses (trace (step sample_parse (Message ''alarmo/event'' ''null'') arm_home_1234)) =
       [(500, JObj [(''success'', JBool False),
          (''message'', JStr ''Failed to parse alarm system response'')])]"
proof -
  have "event_of JNull = Inl TypeError" by simp
  from step_type_error [where parse = sample_parse and message = "''null''",
      OF pending_arm_home_1234 sample_parse_null this]
  have "responses (trace (step sample_parse (Message ''alarmo/event'' ''null'') arm_home_1234)) =
       [(500, parse_error_body)]"
    by (simp add: settled_with_def responses_append arm_home_1234_eq)
  then show ?thesis
    by (simp add: pending_arm_home_1234 sample_parse_null parse_error_body_def)
qed

text \<open>
  C4 (amended). For every pending command and every event-topic message that decodes
  to a value other than \<open>null\<close> (so that its event can be read): if the event is one
  of FAILED_TO_ARM, COMMAND_NOT_ALLOWED, INVALID_CODE_PROVIDED, NO_CODE_PROVIDED the command
  settles with 400, \<open>success: false\<close>, the message of \<open>rejection_messages\<close> for that
  event, and the event; if the event is none of the ten known events the command settles
  with 400, \<open>success: false\<close>, the message \<open>Unrecognized alarm event received\<close> and
  the event as read.
\<close>

theorem rejection_event_settles_with_domain_error:
  assumes "pending s"
    and "parse message = Inr response"
    and "event_of response = Inr event"
  shows "((e, msg) \<in> set rejection_messages \<and> event = JStr e \<longrightarrow>
       step parse (Message ''alarmo/event'' message) s =
         settled_with [ClearTimeout, RemoveListener,
           Respond 400 (JObj [(''success'', JBool False), (''message'', JStr msg),
             (''event'', JStr e)])] s)
   \<and> (event \<notin> JStr ` set known_events \<longrightarrow>
       step parse (Message ''alarmo/event'' message) s =
         settled_with [ClearTimeout, RemoveListener,
           Respond 400 (JObj [(''success'', JBool False),
             (''message'', JStr ''Unrecognized alarm event received''), (''event'', event)])] s)"
proof -
  from assms(1) have l: "listening s" and h: "\<not> hasResponded s"
    by (simp_all add: pending_def)
  have d: "step parse (Message ''alarmo/event'' message) s = dispatch event s"
    using l h assms(2,3) by (simp add: responseHandler_event on_event_topic_def)
  have "step parse (Message ''alarmo/event'' message) s =
      settled_with [ClearTimeout, RemoveListener,
        Respond 400 (JObj [(''success'', JBool False), (''message'', JStr msg),
          (''event'', JStr e)])] s"
    if "(e, msg) \<in> set rejection_messages" and "event = JStr e"
    using d that(2) by (simp only: dispatch_rejection [OF that(1)] respond_release failure_body_def)
  moreover have "step parse (Message ''alarmo/event'' message) s =
      settled_with [ClearTimeout, RemoveListener,
        Respond 400 (JObj [(''success'', JBool False),
          (''message'', JStr ''Unrecognized alarm event received''), (''event'', event)])] s"
    if "event \<notin> JStr ` set known_events"
    using d by (simp only: dispatch_unrecognized [OF that h] respond_release failure_body_def)
  ultimately show ?thesis by blast
qed

theorem rejection_event_settles_with_domain_error_witness:
  "pending arm_away_1234
   \<and> sample_parse invalid_code_event = Inr (JObj [(''event'', JStr ''INVALID_CODE_PROVIDED'')])
   \<and> event_of (JObj [(''event'', JStr ''INVALID_CODE_PROVIDED'')]) = Inr (JStr ''INVALID_CODE_PROVIDED'')
   \<and> (''INVALID_CODE_PROVIDED'', ''Invalid security code provided.'') \<in> set rejection_messages
   \<and> step sample_parse (Message ''alarmo/event'' invalid_code_event) arm_away_1234 =
       settled_with [ClearTimeout, RemoveListener,
         Respond 400 (JObj [(''success'', JBool False),
           (''message'', JStr ''Invalid security code provided.''),
           (''event'', JStr ''INVALID_CODE_PROVIDED'')])] arm_away_1234
   \<and> sample_parse disarm_event = Inr (JObj [(''event'', JStr ''DISARM'')])
   \<and> event_of (JObj [(''event'', JStr ''DISARM'')]) = Inr (JStr ''DISARM'')
   \<and> JStr ''DISARM'' \<notin> JStr ` set known_events
   \<and> step sample_parse (Message ''alarmo/event'' disarm_event) arm_away_1234 =
       settled_with [ClearTimeout, RemoveListener,
         Respond 400 (JObj [(''success'', JBool False),
           (''message'', JStr ''Unrecognized alarm event received''),
           (''event'', JStr ''DISARM'')])] arm_away_1234"
proof -
  have p: "pending arm_away_1234" by (rule pending_arm_away_1234)
  have e1: "event_of (JObj [(''event'', JStr ''INVALID_CODE_PROVIDED'')]) = Inr (JStr ''INVALID_CODE_PROVIDED'')"
    by simp
  have m1: "(''INVALID_CODE_PROVIDED'', ''Invalid security code provided.'') \<in> set rejection_messages"
    by (simp add: rejection_messages_def)
  have e2: "event_of (JObj [(''event'', JStr ''DISARM'')]) = Inr (JStr ''DISARM'')"
    by simp
  have m2: "JStr ''DISARM'' \<notin> JStr ` set known_events"
    by (simp add: known_events_eq image_iff)
  from rejection_event_settles_with_domain_error [where parse = sample_parse
      and message = invalid_code_event and e = "''INVALID_CODE_PROVIDED''"
      and msg = "''Invalid security code provided.''", OF p sample_parse_invalid_code e1]
    rejection_event_settles_with_domain_error [where parse = sample_parse
      and message = disarm_event and e = "''DISARM''" and msg = "[]",
      OF p sample_parse_disarm e2]
    p sample_parse_invalid_code e1 m1 sample_parse_disarm e2 m2
  show ?thesis by (simp only: simp_thms)
qed

text \<open>
  C2 as stated does not hold: the state-topic branch never reads the mode. A pending
  \<open>arm_home\<close> command is settled with Success by the state message \<open>disarmed\<close>.
\<close>

theorem disarmed_state_settles_arm_home:
  "mode arm_home_1234 = JStr ''arm_home''
   \<and> pending arm_home_1234
   \<and> responses (trace (step sample_parse (Message ''alarmo/state'' ''disarmed'') arm_home_1234)) =
       [(200, JObj [(''success'', JBool True), (''event'', JStr ''DISARMED''),
          (''state'', JStr ''disarmed'')])]"
  by (simp add: arm_home_1234_eq pending_def responseHandler_state on_state_topic_def
      success_body_def effect_defs)

text \<open>
  C2 (amended). A state-topic message equal to \<open>disarmed\<close> settles a pending command
  with 200, \<open>success: true\<close>, event \<open>DISARMED\<close> and state \<open>disarmed\<close>, whatever the
  command's mode is; a state-topic message with any other text leaves the command as it
  is.
\<close>

theorem disarmed_state_settles_every_mode:
  assumes "pending s"
  shows "step parse (Message ''alarmo/state'' ''disarmed'') (s\<lparr>mode := m\<rparr>) =
       settled_with [ClearTimeout, RemoveListener,
         Respond 200 (JObj [(''success'', JBool True), (''event'', JStr ''DISARMED''),
           (''state'', JStr ''disarmed'')])] (s\<lparr>mode := m\<rparr>)
   \<and> (message \<noteq> ''disarmed'' \<longrightarrow>
        step parse (Message ''alarmo/state'' message) (s\<lparr>mode := m\<rparr>) = s\<lparr>mode := m\<rparr>)"
proof -
  let ?s = "s\<lparr>mode := m\<rparr>"
  from assms have l: "listening ?s" by (simp add: pending_def)
  have "step parse (Message ''alarmo/state'' ''disarmed'') ?s = on_state_topic ''disarmed'' ?s"
    using l by (simp add: responseHandler_state)
  also have "\<dots> = respond 200 (success_body (JStr ''DISARMED'') ''disarmed'') (release ?s)"
    by (simp add: on_state_topic_def)
  finally have a: "step parse (Message ''alarmo/state'' ''disarmed'') ?s =
       settled_with [ClearTimeout, RemoveListener,
         Respond 200 (JObj [(''success'', JBool True), (''event'', JStr ''DISARMED''),
           (''state'', JStr ''disarmed'')])] ?s"
    by (simp only: respond_release success_body_def)
  have b: "step parse (Message ''alarmo/state'' message) ?s = ?s" if "message \<noteq> ''disarmed''"
    using that by (simp add: responseHandler_state on_state_topic_def)
  from a b show ?thesis by blast
qed

theorem disarmed_state_settles_every_mode_witness:
  "pending arm_home_1234
   \<and> step sample_parse (Message ''alarmo/state'' ''disarmed'')
        (arm_home_1234\<lparr>mode := JStr ''arm_night''\<rparr>) =
       settled_with [ClearTimeout, RemoveListener,
         Respond 200 (JObj [(''success'', JBool True), (''event'', JStr ''DISARMED''),
           (''state'', JStr ''disarmed'')])] (arm_home_1234\<lparr>mode := JStr ''arm_night''\<rparr>)
   \<and> ''armed_home'' \<noteq> ''disarmed''
   \<and> step sample_parse (Message ''alarmo/state'' ''armed_home'')
        (arm_home_1234\<lparr>mode := JStr ''arm_night''\<rparr>) = arm_home_1234\<lparr>mode := JStr ''arm_night''\<rparr>"
proof -
  have n: "''armed_home'' \<noteq> ''disarmed''" by simp
  from disarmed_state_settles_every_mode [OF pending_arm_home_1234,
      where parse = sample_parse and m = "JStr ''arm_night''" and message = "''armed_home''"]
    pending_arm_home_1234 n
  show ?thesis by (simp only: simp_thms)
qed

text \<open>
  C5. The claim asks that a domain rejection is broadcast to the observers as a timeout
  is. The run below is a pending \<open>arm_away\<close> command that receives the event
  INVALID_CODE_PROVIDED: the caller gets the 400 response, and the request has made no
  \<^verbatim>\<open>io.emit\<close> at all.
\<close>

theorem rejection_is_not_broadcast:
  "responses (trace (run sample_parse [Message ''alarmo/event'' invalid_code_event] arm_away_1234)) =
     [(400, JObj [(''success'', JBool False),
        (''message'', JStr ''Invalid security code provided.''),
        (''event'', JStr ''INVALID_CODE_PROVIDED'')])]
   \<and> broadcasts (trace (run sample_parse [Message ''alarmo/event'' invalid_code_event] arm_away_1234)) = []"
proof -
  have l: "listening arm_away_1234" and h: "\<not> hasResponded arm_away_1234"
    using pending_arm_away_1234 by (simp_all add: pending_def)
  have e: "event_of (JObj [(''event'', JStr ''INVALID_CODE_PROVIDED'')]) = Inr (JStr ''INVALID_CODE_PROVIDED'')"
    by simp
  have m: "(''INVALID_CODE_PROVIDED'', ''Invalid security code provided.'') \<in> set rejection_messages"
    by (simp add: rejection_messages_def)
  have "run sample_parse [Message ''alarmo/event'' invalid_code_event] arm_away_1234 =
      dispatch (JStr ''INVALID_CODE_PROVIDED'') arm_away_1234"
    using l h by (simp add: responseHandler_event on_event_topic_def sample_parse_invalid_code)
  also have "\<dots> = settled_with [ClearTimeout, RemoveListener,
      Respond 400 (failure_body ''Invalid security code provided.'' (JStr ''INVALID_CODE_PROVIDED''))]
      arm_away_1234"
    by (simp only: dispatch_rejection [OF m] respond_release)
  finally show ?thesis
    by (simp add: settled_with_def arm_away_1234_eq failure_body_def)
qed

text \<open>
  The two halves in general: a timeout appends one \<open>alarmUpdateTimeout\<close> broadcast, a
  rejection event appends none.
\<close>

lemma timeout_is_broadcast:
  assumes "pending s" "io s"
  shows "broadcasts (trace (step parse Deadline s)) =
     broadcasts (trace s) @ [(''alarmUpdateTimeout'', JObj [(''mode'', mode s)])]"
  using assms(2) unfolding on_timeout_pending [OF assms(1)]
  by (simp add: settled_with_def broadcasts_append)

lemma rejection_leaves_broadcasts:
  assumes "pending s" "parse message = Inr response" "event_of response = Inr (JStr e)"
    "(e, msg) \<in> set rejection_messages"
  shows "broadcasts (trace (step parse (Message ''alarmo/event'' message) s)) = broadcasts (trace s)"
proof -
  from assms(1) have l: "listening s" and h: "\<not> hasResponded s"
    by (simp_all add: pending_def)
  have "step parse (Message ''alarmo/event'' message) s = dispatch (JStr e) s"
    using l h assms(2,3) by (simp add: responseHandler_event on_event_topic_def)
  then show ?thesis
    by (simp add: dispatch_rejection [OF assms(4)] respond_release settled_with_def
        broadcasts_append)
qed

text \<open>
  C6. If the credential is falsy (the empty string in particular) and the mode is one the
  route can log (it has a string conversion, as every string has), the command operation
  does exactly one thing: it responds 400 with \<open>success: false\<close> and the message
  \<open>Security code is required\<close>. It publishes nothing, registers no listener, starts no
  timer, and no later delivery changes it.
\<close>

theorem empty_credential_is_rejected_locally:
  assumes "\<not> truthy code" and "\<not> to_string_throws m"
  shows "trace (updateAlarmState io_set publish_ok m code) =
       [Respond 400 (JObj [(''success'', JBool False),
          (''message'', JStr ''Security code is required'')])]
   \<and> publishes (trace (updateAlarmState io_set publish_ok m code)) = []
   \<and> listening (updateAlarmState io_set publish_ok m code) = False
   \<and> responseTimeout (updateAlarmState io_set publish_ok m code) = False
   \<and> run parse ds (updateAlarmState io_set publish_ok m code) =
       updateAlarmState io_set publish_ok m code"
proof -
  have eq: "updateAlarmState io_set publish_ok m code =
      respond 400 code_required_body (new_request io_set m)"
    using assms falsy_has_string [OF assms(1)] by (simp add: updateAlarmState_def)
  have "released (updateAlarmState io_set publish_ok m code)"
    unfolding eq by (simp add: released_def respond_def new_request_def)
  then have "run parse ds (updateAlarmState io_set publish_ok m code) =
      updateAlarmState io_set publish_ok m code"
    by (rule released_run)
  then show ?thesis
    unfolding eq by (simp add: respond_def new_request_def code_required_body_def)
qed

theorem empty_credential_is_rejected_locally_witness:
  "\<not> truthy (JStr []) \<and> \<not> to_string_throws (JStr ''arm_away'')
   \<and> trace (updateAlarmState True True (JStr ''arm_away'') (JStr [])) =
       [Respond 400 (JObj [(''success'', JBool False),
          (''message'', JStr ''Security code is required'')])]
   \<and> publishes (trace (updateAlarmState True True (JStr ''arm_away'') (JStr []))) = []
   \<and> listening (updateAlarmState True True (JStr ''arm_away'') (JStr [])) = False
   \<and> responseTimeout (updateAlarmState True True (JStr ''arm_away'') (JStr [])) = False
   \<and> run sample_parse [Message ''alarmo/event'' arm_away_event, Deadline]
        (updateAlarmState True True (JStr ''arm_away'') (JStr [])) =
       updateAlarmState True True (JStr ''arm_away'') (JStr [])"
proof -
  have f: "\<not> truthy (JStr [])" and g: "\<not> to_string_throws (JStr ''arm_away'')"
    by simp_all
  from empty_credential_is_rejected_locally [OF f g, where io_set = True and publish_ok = True
      and parse = sample_parse and ds = "[Message ''alarmo/event'' arm_away_event, Deadline]"] f g
  show ?thesis by simp
qed

text \<open>
  C7 as stated does not hold in one point: the deadline timer is started (and the
  listener registered) before the publish is attempted. When the publish throws, the
  effects begin with \<open>SetTimeout 5000\<close>.
\<close>

theorem publish_failure_after_timer_start:
  "trace (updateAlarmState True False (JStr ''arm_home'') (JStr ''1234'')) =
     [SetTimeout 5000, AddListener, ClearTimeout, RemoveListener,
      IoEmit ''alarmUpdateError'' (JObj [(''error'', JStr ''MQTT_PUBLISH_ERROR''),
        (''message'', JStr ''Failed to send command to alarm system'')]),
      Respond 500 (JObj [(''success'', JBool False),
        (''message'', JStr ''Failed to send command to alarm system'')])]"
  by (simp add: updateAlarmState_def on_publish_error_def publish_error_payload_def
      publish_error_body_def effect_defs)

text \<open>
  C7 (amended). If the publish to the command topic fails (for a truthy credential and a
  mode and credential the route can log, as all strings are), the timer that was started
  before the publish is cleared and the listener removed, an \<open>alarmUpdateError\<close> is
  broadcast when Socket.IO is set, and the command settles with 500, \<open>success: false\<close>
  and the publish-failure message. Afterwards no delivery changes the request: in
  particular no Timeout settlement follows.
\<close>

theorem publish_failure_settles_and_cancels_timer:
  assumes "truthy code" and "\<not> to_string_throws m" and "\<not> to_string_throws code"
  shows "trace (updateAlarmState io_set False m code) =
       [SetTimeout 5000, AddListener, ClearTimeout, RemoveListener]
       @ (if io_set then [IoEmit ''alarmUpdateError'' (JObj [(''error'', JStr ''MQTT_PUBLISH_ERROR''),
            (''message'', JStr ''Failed to send command to alarm system'')])] else [])
       @ [Respond 500 (JObj [(''success'', JBool False),
            (''message'', JStr ''Failed to send command to alarm system'')])]
   \<and> responseTimeout (updateAlarmState io_set False m code) = False
   \<and> listening (updateAlarmState io_set False m code) = False
   \<and> run parse ds (updateAlarmState io_set False m code) = updateAlarmState io_set False m code"
proof -
  have eq: "updateAlarmState io_set False m code =
      on_publish_error (addListener (setTimeout 5000 (new_request io_set m)))"
    using assms by (simp add: updateAlarmState_def)
  have t: "responseTimeout (updateAlarmState io_set False m code) = False"
    and l: "listening (updateAlarmState io_set False m code) = False"
    unfolding eq by (simp_all add: on_publish_error_def effect_defs)
  then have "released (updateAlarmState io_set False m code)"
    by (simp add: released_def)
  then have "run parse ds (updateAlarmState io_set False m code) =
      updateAlarmState io_set False m code"
    by (rule released_run)
  moreover have "trace (updateAlarmState io_set False m code) =
       [SetTimeout 5000, AddListener, ClearTimeout, RemoveListener]
       @ (if io_set then [IoEmit ''alarmUpdateError'' (JObj [(''error'', JStr ''MQTT_PUBLISH_ERROR''),
            (''message'', JStr ''Failed to send command to alarm system'')])] else [])
       @ [Respond 500 (JObj [(''success'', JBool False),
            (''message'', JStr ''Failed to send command to alarm system'')])]"
    unfolding eq
    by (simp add: on_publish_error_def publish_error_payload_def publish_error_body_def effect_defs)
  ultimately show ?thesis using t l by blast
qed

theorem publish_failure_settles_and_cancels_timer_witness:
  "truthy (JStr ''1234'')
   \<and> \<not> to_string_throws (JStr ''arm_home'') \<and> \<not> to_string_throws (JStr ''1234'')
   \<and> responses (trace (updateAlarmState True False (JStr ''arm_home'') (JStr ''1234''))) =
       [(500, JObj [(''success'', JBool False),
          (''message'', JStr ''Failed to send command to alarm system'')])]
   \<and> responseTimeout (updateAlarmState True False (JStr ''arm_home'') (JStr ''1234'')) = False
   \<and> listening (updateAlarmState True False (JStr ''arm_home'') (JStr ''1234'')) = False
   \<and> run sample_parse [Deadline] (updateAlarmState True False (JStr ''arm_home'') (JStr ''1234'')) =
       updateAlarmState True False (JStr ''arm_home'') (JStr ''1234'')"
proof -
  have c: "truthy (JStr ''1234'')" and m: "\<not> to_string_throws (JStr ''arm_home'')"
    and k: "\<not> to_string_throws (JStr ''1234'')"
    by simp_all
  from publish_failure_settles_and_cancels_timer [OF c m k, where io_set = True
      and parse = sample_parse and ds = "[Deadline]"] c m k
  show ?thesis by simp
qed

lemma release_mode: "release (s\<lparr>mode := m\<rparr>) = (release s)\<lparr>mode := m\<rparr>"
  by (simp add: effect_defs)

lemma respond_mode: "respond st body (s\<lparr>mode := m\<rparr>) = (respond st body s)\<lparr>mode := m\<rparr>"
  by (simp add: respond_def)

lemma io_emit_mode: "io_emit name payload (s\<lparr>mode := m\<rparr>) = (io_emit name payload s)\<lparr>mode := m\<rparr>"
  by (simp add: io_emit_def)

lemma dispatch_mode: "dispatch event (s\<lparr>mode := m\<rparr>) = (dispatch event s)\<lparr>mode := m\<rparr>"
  by (simp add: dispatch_def release_mode respond_mode)

lemma on_parse_error_mode: "on_parse_error (s\<lparr>mode := m\<rparr>) = (on_parse_error s)\<lparr>mode := m\<rparr>"
  by (simp add: on_parse_error_def release_mode respond_mode io_emit_mode)

lemma on_event_topic_mode:
  "on_event_topic parse message (s\<lparr>mode := m\<rparr>) = (on_event_topic parse message s)\<lparr>mode := m\<rparr>"
  by (simp add: on_event_topic_def dispatch_mode on_parse_error_mode split: sum.split)

text \<open>
  C9. The handler does not read the mode on the event topic: changing the mode of a
  request changes nothing but the mode of the result. So one arming or trigger event
  emitted by the MQTT client settles every pending command with the same Success,
  whatever each command's mode is.
\<close>

theorem event_reply_settles_every_pending_command:
  assumes "parse message = Inr response"
    and "event_of response = Inr (JStr e)"
    and "(e, st) \<in> set arming_event_states"
    and "\<forall>r \<in> set rs. pending r"
  shows "emit_message parse ''alarmo/event'' message rs =
       map (settled_with [ClearTimeout, RemoveListener,
         Respond 200 (JObj [(''success'', JBool True), (''event'', JStr e),
           (''state'', JStr st)])]) rs
   \<and> responseHandler parse ''alarmo/event'' message (s\<lparr>mode := m\<rparr>) =
       (responseHandler parse ''alarmo/event'' message s)\<lparr>mode := m\<rparr>"
proof
  show "emit_message parse ''alarmo/event'' message rs =
       map (settled_with [ClearTimeout, RemoveListener,
         Respond 200 (JObj [(''success'', JBool True), (''event'', JStr e),
           (''state'', JStr st)])]) rs"
    unfolding emit_message_def
  proof (rule map_cong [OF refl])
    fix r assume "r \<in> set rs"
    with assms(4) have p: "pending r" by blast
    then have l: "listening r" and h: "\<not> hasResponded r"
      by (simp_all add: pending_def)
    have "step parse (Message ''alarmo/event'' message) r = dispatch (JStr e) r"
      using l h assms(1,2) by (simp add: responseHandler_event on_event_topic_def)
    then show "step parse (Message ''alarmo/event'' message) r =
        settled_with [ClearTimeout, RemoveListener,
          Respond 200 (JObj [(''success'', JBool True), (''event'', JStr e),
            (''state'', JStr st)])] r"
      by (simp only: dispatch_arming [OF assms(3)] respond_release success_body_def)
  qed
next
  show "responseHandler parse ''alarmo/event'' message (s\<lparr>mode := m\<rparr>) =
       (responseHandler parse ''alarmo/event'' message s)\<lparr>mode := m\<rparr>"
    by (simp only: responseHandler_event on_event_topic_mode)
qed

theorem event_reply_settles_every_pending_command_witness:
  "sample_parse arm_away_event = Inr (JObj [(''event'', JStr ''ARM_AWAY'')])
   \<and> event_of (JObj [(''event'', JStr ''ARM_AWAY'')]) = Inr (JStr ''ARM_AWAY'')
   \<and> (''ARM_AWAY'', ''armed_away'') \<in> set arming_event_states
   \<and> pending arm_home_1234 \<and> pending arm_away_1234
   \<and> mode arm_home_1234 = JStr ''arm_home''
   \<and> emit_message sample_parse ''alarmo/event'' arm_away_event [arm_home_1234, arm_away_1234] =
       [settled_with [ClearTimeout, RemoveListener,
          Respond 200 (JObj [(''success'', JBool True), (''event'', JStr ''ARM_AWAY''),
            (''state'', JStr ''armed_away'')])] arm_home_1234,
        settled_with [ClearTimeout, RemoveListener,
          Respond 200 (JObj [(''success'', JBool True), (''event'', JStr ''ARM_AWAY''),
            (''state'', JStr ''armed_away'')])] arm_away_1234]"
proof -
  have e: "event_of (JObj [(''event'', JStr ''ARM_AWAY'')]) = Inr (JStr ''ARM_AWAY'')"
    by simp
  have m: "(''ARM_AWAY'', ''armed_away'') \<in> set arming_event_states"
    by (simp add: arming_event_states_def)
  have p: "\<forall>r \<in> set [arm_home_1234, arm_away_1234]. pending r"
    by (simp add: pending_arm_home_1234 pending_arm_away_1234)
  have md: "mode arm_home_1234 = JStr ''arm_home''"
    by (simp add: arm_home_1234_eq)
  from event_reply_settles_every_pending_command [where parse = sample_parse
      and message = arm_away_event and rs = "[arm_home_1234, arm_away_1234]"
      and s = arm_home_1234 and m = JNull,
      OF sample_parse_arm_away e m p]
    sample_parse_arm_away e m md pending_arm_home_1234 pending_arm_away_1234
  show ?thesis by simp
qed

lemma filter_other_socket:
  "sock \<notin> set ks \<Longrightarrow> filter (\<lambda>d. fst d = sock) (map (\<lambda>k. (k, x)) ks) = []"
  by (induction ks) auto

lemma on_connection_truthy:
  "truthy (alarmState sv) \<Longrightarrow> on_connection sock now sv =
     sv\<lparr>sockets := sockets sv @ [sock],
        delivered := delivered sv @ [(sock, ''alarmStateChanged'',
          state_changed ''alarmo/state'' (alarmState sv) now)]\<rparr>"
  by (simp add: on_connection_def socket_emit_def)

lemma on_connection_falsy:
  "\<not> truthy (alarmState sv) \<Longrightarrow> on_connection sock now sv = sv\<lparr>sockets := sockets sv @ [sock]\<rparr>"
  by (simp add: on_connection_def)

lemma on_message_state:
  "on_message ''alarmo/state'' message now sv =
     sv\<lparr>alarmState := JStr message,
        delivered := delivered sv @
          map (\<lambda>k. (k, ''alarmStateChanged'', state_changed ''alarmo/state'' (JStr message) now))
            (sockets sv)\<rparr>"
  by (simp add: on_message_def io_emit_all_def)

text \<open>
  C8 as stated does not hold for every cached value: the replay is guarded by the
  truthiness of the cache, and the empty string is falsy. After an empty state message
  the cache holds the empty string, and a client that connects receives nothing.
\<close>

theorem empty_cached_state_is_not_replayed:
  "alarmState server_after_empty_state = JStr []
   \<and> delivered (on_connection 1 ''2025-01-01T00:00:01.000Z'' server_after_empty_state) = []"
  by (simp add: server_after_empty_state_def on_message_state initial_server_def
      on_connection_falsy)

text \<open>
  C8 (amended). A client that connects while the cache holds a non-empty string \<open>v\<close>
  is sent exactly one \<open>alarmStateChanged\<close> notification with topic \<open>alarmo/state\<close>,
  state \<open>v\<close> and the time of the connection, and nothing is sent to any other client.
  A client that connects while the cache is falsy (nothing received yet, or the empty
  string) is sent nothing, and receives the next state-topic message when it arrives.
\<close>

theorem new_observer_gets_cached_state:
  assumes "sock \<notin> set (sockets sv)"
  shows "(alarmState sv = JStr v \<and> v \<noteq> [] \<longrightarrow>
       delivered (on_connection sock now sv) =
         delivered sv @ [(sock, ''alarmStateChanged'',
           JObj [(''topic'', JStr ''alarmo/state''), (''state'', JStr v),
             (''timestamp'', JStr now)])])
   \<and> (\<not> truthy (alarmState sv) \<longrightarrow>
       delivered (on_connection sock now sv) = delivered sv
       \<and> received sock (on_message ''alarmo/state'' message now' (on_connection sock now sv)) =
           received sock sv @ [(''alarmStateChanged'',
             JObj [(''topic'', JStr ''alarmo/state''), (''state'', JStr message),
               (''timestamp'', JStr now')])])"
proof (intro conjI impI)
  assume "alarmState sv = JStr v \<and> v \<noteq> []"
  then have c: "alarmState sv = JStr v" and "truthy (alarmState sv)" by simp_all
  then show "delivered (on_connection sock now sv) =
      delivered sv @ [(sock, ''alarmStateChanged'',
        JObj [(''topic'', JStr ''alarmo/state''), (''state'', JStr v),
          (''timestamp'', JStr now)])]"
    by (simp add: on_connection_truthy state_changed_def)
next
  assume f: "\<not> truthy (alarmState sv)"
  then show "delivered (on_connection sock now sv) = delivered sv"
    by (simp add: on_connection_falsy)
next
  assume f: "\<not> truthy (alarmState sv)"
  have "filter (\<lambda>d. fst d = sock)
      (map (\<lambda>k. (k, ''alarmStateChanged'', state_changed ''alarmo/state'' (JStr message) now'))
        (sockets sv)) = []"
    using assms by (rule filter_other_socket)
  then show "received sock (on_message ''alarmo/state'' message now' (on_connection sock now sv)) =
      received sock sv @ [(''alarmStateChanged'',
        JObj [(''topic'', JStr ''alarmo/state''), (''state'', JStr message),
          (''timestamp'', JStr now')])]"
    by (simp add: on_connection_falsy [OF f] on_message_state received_def state_changed_def)
qed

lemma server_armed_home_eq:
  "server_armed_home = \<lparr>alarmState = JStr ''armed_home'', sockets = [1],
     delivered = [(1, ''alarmStateChanged'',
       JObj [(''topic'', JStr ''alarmo/state''), (''state'', JStr ''armed_home''),
         (''timestamp'', JStr ''2025-01-01T00:00:00.000Z'')])]\<rparr>"
  by (simp add: server_armed_home_def on_message_state initial_server_def on_connection_falsy
      state_changed_def)

theorem new_observer_gets_cached_state_witness:
  "(2::nat) \<notin> set (sockets server_armed_home)
   \<and> alarmState server_armed_home = JStr ''armed_home'' \<and> ''armed_home'' \<noteq> []
   \<and> delivered (on_connection 2 ''2025-01-01T00:00:05.000Z'' server_armed_home) =
       delivered server_armed_home @ [(2, ''alarmStateChanged'',
         JObj [(''topic'', JStr ''alarmo/state''), (''state'', JStr ''armed_home''),
           (''timestamp'', JStr ''2025-01-01T00:00:05.000Z'')])]
   \<and> (2::nat) \<notin> set (sockets initial_server)
   \<and> \<not> truthy (alarmState initial_server)
   \<and> delivered (on_connection 2 ''2025-01-01T00:00:05.000Z'' initial_server) = []
   \<and> received 2 (on_message ''alarmo/state'' ''disarmed'' ''2025-01-01T00:00:09.000Z''
        (on_connection 2 ''2025-01-01T00:00:05.000Z'' initial_server)) =
       [(''alarmStateChanged'',
         JObj [(''topic'', JStr ''alarmo/state''), (''state'', JStr ''disarmed''),
           (''timestamp'', JStr ''2025-01-01T00:00:09.000Z'')])]"
proof -
  have a: "(2::nat) \<notin> set (sockets server_armed_home)"
    by (simp add: server_armed_home_eq)
  have b: "(2::nat) \<notin> set (sockets initial_server)"
    by (simp add: initial_server_def)
  have c: "alarmState server_armed_home = JStr ''armed_home''"
    by (simp add: server_armed_home_eq)
  have d: "\<not> truthy (alarmState initial_server)" "delivered initial_server = []"
    "received 2 initial_server = []"
    by (simp_all add: initial_server_def received_def)
  from new_observer_gets_cached_state [OF a, of "''armed_home''" "''2025-01-01T00:00:05.000Z''"]
    new_observer_gets_cached_state [OF b, of _ "''2025-01-01T00:00:05.000Z''" "''disarmed''"
      "''2025-01-01T00:00:09.000Z''"]
    a b c d
  show ?thesis by simp
qed

text \<open>
  C10. For every text \<open>s\<close> received on the state topic, whether or not it names a
  state of the alarm, the cache becomes exactly \<open>s\<close> and every connected client is
  sent one \<open>alarmStateChanged\<close> notification whose state is exactly \<open>s\<close>.
\<close>

theorem state_payload_forwarded_verbatim:
  "alarmState (on_message ''alarmo/state'' s now sv) = JStr s
   \<and> sockets (on_message ''alarmo/state'' s now sv) = sockets sv
   \<and> delivered (on_message ''alarmo/state'' s now sv) =
       delivered sv @ map (\<lambda>k. (k, ''alarmStateChanged'',
         JObj [(''topic'', JStr ''alarmo/state''), (''state'', JStr s),
           (''timestamp'', JStr now)])) (sockets sv)"
proof -
  have "''alarmo/state'' = ''alarmo/state'' \<or>
      (startsWith ''alarmo/state'' ''alarmo/'' \<and> endsWith ''alarmo/state'' ''/state'')"
    by simp
  then have "on_message ''alarmo/state'' s now sv =
      io_emit_all ''alarmStateChanged'' (state_changed ''alarmo/state'' (JStr s) now)
        (sv\<lparr>alarmState := JStr s\<rparr>)"
    by (simp add: on_message_def)
  then show ?thesis
    by (simp add: io_emit_all_def state_changed_def)
qed

end
